theory Spec2Isabelle
  imports Complex_Main
begin

section \<open>LifeShield backend: values, artifacts and responses\<close>

text \<open>
  The embedding follows \<^verbatim>\<open>src/main.py\<close>. Python floats are modelled as \<^typ>\<open>real\<close>:
  the literals \<^verbatim>\<open>0.3\<close>, \<^verbatim>\<open>0.7\<close>, \<^verbatim>\<open>0.5\<close> are the rationals they are written as, and
  the rounding of floating-point arithmetic is not modelled.

  A feature value is whatever JSON carries (\<^verbatim>\<open>Dict[str, Any]\<close>).
\<close>

datatype jvalue =
    JNull
  | JBool bool
  | JNum real
  | JStr string
  | JArr "jvalue list"
  | JObj "(string \<times> jvalue) list"

text \<open>
  A one-row \<^verbatim>\<open>pandas.DataFrame\<close>: its columns in order, each with its name and the cell of
  row 0. Column names may repeat, as they may in pandas.
\<close>

type_synonym frame = "(string \<times> jvalue) list"

text \<open>
  An exception carries its message, which is all that \<^verbatim>\<open>str(e)\<close> reads. \<^verbatim>\<open>IndexError\<close> is
  what numpy raises on an index out of bounds; \<^verbatim>\<open>Raised\<close> is any exception that comes out of
  an artifact's own code (\<^verbatim>\<open>scaler.transform\<close>, \<^verbatim>\<open>model.predict_proba\<close>).
\<close>

datatype exn = IndexError string | Raised string

fun str_exn :: "exn \<Rightarrow> string" where
  "str_exn (IndexError msg) = msg"
| "str_exn (Raised msg) = msg"

datatype http_error = HTTPException nat string

text \<open>
  The artifacts are opaque objects loaded from disk. The scaler may expose
  \<^verbatim>\<open>feature_names_in_\<close> and has \<^verbatim>\<open>transform\<close>, which receives the scaler-aligned frame and
  returns a row of floats or raises; the model may expose \<^verbatim>\<open>feature_names_in_\<close> and has
  \<^verbatim>\<open>predict_proba\<close>, which receives the values of the final frame and returns a
  two-dimensional array or raises. The transform is taken to return one row for the one row
  it is given.
\<close>

record scaler_obj =
  scaler_feature_names_in :: "string list option"
  scaler_transform :: "frame \<Rightarrow> exn + real list"

record model_obj =
  model_feature_names_in :: "string list option"
  model_predict_proba :: "jvalue list \<Rightarrow> exn + real list list"

text \<open>The module's globals \<^verbatim>\<open>model\<close>, \<^verbatim>\<open>scaler\<close>, \<^verbatim>\<open>feature_columns\<close>; \<^verbatim>\<open>None\<close> until loaded.\<close>

record artifacts =
  model :: "model_obj option"
  scaler :: "scaler_obj option"
  feature_columns :: "string list option"

record prediction_response =
  risk_probability :: real
  risk_level :: string
  confidence :: real
  vitality_score :: real
  recommendation :: string

record health_response =
  status :: string
  artifacts_loaded :: bool

text \<open>
  What a request does to the outside, in order: the calls into the artifacts and the
  lines written by \<^verbatim>\<open>logger.error\<close>.
\<close>

datatype event =
    CallTransform frame
  | CallPredictProba "jvalue list"
  | LogError string

section \<open>The risk interpreter\<close>

definition get_risk_metadata :: "real \<Rightarrow> string \<times> real \<times> real \<times> string" where
  "get_risk_metadata prob =
     (let (level, rec) =
            (if prob < 0.3 then
               (''Low'',
                ''Your health indicators look great. Maintain your current lifestyle and regular checkups.'')
             else if prob < 0.7 then
               (''Moderate'',
                ''Some indicators suggest potential risks. Consider consulting a professional and reviewing your diet/exercise habits.'')
             else
               (''High'',
                ''High-risk indicators detected. We strongly recommend scheduling a comprehensive medical evaluation.''));
          confidence = \<bar>prob - 0.5\<bar> * 2;
          vitality_score = (1 - prob) * 100
      in (level, confidence, vitality_score, rec))"

section \<open>The endpoints\<close>

definition health_check :: "artifacts \<Rightarrow> health_response" where
  "health_check st =
     \<lparr> status = ''healthy'',
       artifacts_loaded = (model st \<noteq> None \<and> scaler st \<noteq> None \<and> feature_columns st \<noteq> None) \<rparr>"

text \<open>
  \<^verbatim>\<open>pd.DataFrame([features]).reindex(columns=cols, fill_value=0)\<close>: one column per name of
  \<^verbatim>\<open>cols\<close>, in that order; the record's value where the record has the name, the integer 0
  where it has not. Names of the record outside \<^verbatim>\<open>cols\<close> are dropped.
\<close>

definition reindex :: "(string \<rightharpoonup> jvalue) \<Rightarrow> string list \<Rightarrow> frame" where
  "reindex features cols =
     map (\<lambda>c. (c, case features c of None \<Rightarrow> JNum 0 | Some v \<Rightarrow> v)) cols"

text \<open>
  \<^verbatim>\<open>df[col] = v\<close> on a one-row frame: every column named \<^verbatim>\<open>col\<close> is overwritten; when there
  is none, pandas appends a new column \<^verbatim>\<open>col\<close> at the end.
\<close>

definition set_column :: "frame \<Rightarrow> string \<Rightarrow> jvalue \<Rightarrow> frame" where
  "set_column df col v =
     (if col \<in> set (map fst df)
      then map (\<lambda>(c, x). if c = col then (c, v) else (c, x)) df
      else df @ [(col, v)])"

text \<open>\<^verbatim>\<open>str(n)\<close> of a natural number: its decimal digits.\<close>

fun str_nat :: "nat \<Rightarrow> string" where
  "str_nat n =
     (if n < 10 then [''0123456789'' ! n]
      else str_nat (n div 10) @ [''0123456789'' ! (n mod 10)])"

declare str_nat.simps [simp del]

text \<open>numpy's message for \<^verbatim>\<open>a[.., i]\<close> with \<^verbatim>\<open>i\<close> beyond the size of the axis.\<close>

definition out_of_bounds :: "nat \<Rightarrow> nat \<Rightarrow> nat \<Rightarrow> exn" where
  "out_of_bounds i axis n =
     IndexError (''index '' @ str_nat i @ '' is out of bounds for axis '' @ str_nat axis
                 @ '' with size '' @ str_nat n)"

text \<open>
  The loop \<^verbatim>\<open>for i, col in enumerate(scaler_features): final_df[col] = scaled_features[:, i]\<close>.
  Reading column \<^verbatim>\<open>i\<close> of the transformed array raises when the array is narrower.
\<close>

fun update_scaled :: "frame \<Rightarrow> (nat \<times> string) list \<Rightarrow> real list \<Rightarrow> exn + frame" where
  "update_scaled final_df [] scaled_features = Inr final_df"
| "update_scaled final_df ((i, col) # rest) scaled_features =
     (if i < length scaled_features
      then update_scaled (set_column final_df col (JNum (scaled_features ! i))) rest scaled_features
      else Inl (out_of_bounds i 1 (length scaled_features)))"

text \<open>\<^verbatim>\<open>getattr(artifact, "feature_names_in_", feature_columns)\<close>.\<close>

definition scaler_features :: "scaler_obj \<Rightarrow> string list \<Rightarrow> string list" where
  "scaler_features s fc = (case scaler_feature_names_in s of Some ns \<Rightarrow> ns | None \<Rightarrow> fc)"

definition model_features :: "model_obj \<Rightarrow> string list \<Rightarrow> string list" where
  "model_features m fc = (case model_feature_names_in m of Some ns \<Rightarrow> ns | None \<Rightarrow> fc)"

text \<open>
  Lines 144 to 164 of \<^verbatim>\<open>predict\<close>: from the request's features to the final frame whose
  values go to the classifier.
\<close>

definition reconcile ::
  "scaler_obj \<Rightarrow> model_obj \<Rightarrow> string list \<Rightarrow> (string \<rightharpoonup> jvalue) \<Rightarrow> exn + frame" where
  "reconcile s m fc features =
     (let df_for_scaler = reindex features (scaler_features s fc)
      in case scaler_transform s df_for_scaler of
           Inl e \<Rightarrow> Inl e
         | Inr scaled \<Rightarrow>
             update_scaled (reindex features (model_features m fc))
               (enumerate 0 (scaler_features s fc)) scaled)"

text \<open>\<^verbatim>\<open>model.predict_proba(final_df.values)[0][1]\<close>.\<close>

definition positive_class :: "real list list \<Rightarrow> exn + real" where
  "positive_class proba =
     (case proba of
        [] \<Rightarrow> Inl (out_of_bounds 0 0 0)
      | row # _ \<Rightarrow> if 1 < length row then Inr (row ! 1) else Inl (out_of_bounds 1 0 (length row)))"

text \<open>
  Python's \<^verbatim>\<open>round(x, ndigits)\<close> on the reals: to the nearest multiple of
  \<open>10 ^ -ndigits\<close>, a tie going to the even one.
\<close>

definition py_round :: "real \<Rightarrow> nat \<Rightarrow> real" where
  "py_round x ndigits =
     (let y = x * 10 ^ ndigits; f = \<lfloor>y\<rfloor>; d = y - of_int f
      in of_int (if d < 1 / 2 then f else if 1 / 2 < d then f + 1
                 else if even f then f else f + 1) / 10 ^ ndigits)"

definition prediction_failed :: "exn \<Rightarrow> event list \<Rightarrow> (http_error + prediction_response) \<times> event list" where
  "prediction_failed e evs =
     (Inl (HTTPException 500 (''Prediction failed: '' @ str_exn e)),
      evs @ [LogError (''Prediction error: '' @ str_exn e)])"

definition predict ::
  "artifacts \<Rightarrow> (string \<rightharpoonup> jvalue) \<Rightarrow> (http_error + prediction_response) \<times> event list" where
  "predict st features =
     (case (model st, scaler st, feature_columns st) of
        (Some m, Some s, Some fc) \<Rightarrow>
          (let called = [CallTransform (reindex features (scaler_features s fc))]
           in case reconcile s m fc features of
                Inl e \<Rightarrow> prediction_failed e called
              | Inr final_df \<Rightarrow>
                  (let vals = map snd final_df;
                       called = called @ [CallPredictProba vals]
                   in case model_predict_proba m vals of
                        Inl e \<Rightarrow> prediction_failed e called
                      | Inr proba \<Rightarrow>
                          (case positive_class proba of
                             Inl e \<Rightarrow> prediction_failed e called
                           | Inr prediction_proba \<Rightarrow>
                               (let (risk_level, confidence, vitality_score, recommendation) =
                                      get_risk_metadata prediction_proba
                                in (Inr \<lparr> risk_probability = py_round prediction_proba 4,
                                          risk_level = risk_level,
                                          confidence = py_round confidence 4,
                                          vitality_score = py_round vitality_score 2,
                                          recommendation = recommendation \<rparr>,
                                    called)))))
      | _ \<Rightarrow> (Inl (HTTPException 503 ''Model artifacts are not loaded.''), []))"

section \<open>Stub artifacts for concrete runs\<close>

text \<open>
  A scaler that standardises numeric cells and raises on anything else, a classifier that
  checks the width and the cells of its input and answers with probability 0.62, as
  scikit-learn's estimators do; and scalers whose schema or output width does not fit.
\<close>

fun is_numeric :: "jvalue \<Rightarrow> bool" where
  "is_numeric (JNum x) = True"
| "is_numeric (JBool b) = True"
| "is_numeric v = False"

fun as_float :: "jvalue \<Rightarrow> real" where
  "as_float (JNum x) = x"
| "as_float (JBool b) = (if b then 1 else 0)"
| "as_float v = 0"

definition stub_transform :: "frame \<Rightarrow> exn + real list" where
  "stub_transform df =
     (if list_all (\<lambda>cv. is_numeric (snd cv)) df
      then Inr (map (\<lambda>cv. (as_float (snd cv) - 40) / 10) df)
      else Inl (Raised ''could not convert string to float''))"

definition stub_scaler :: scaler_obj where
  "stub_scaler = \<lparr> scaler_feature_names_in = Some [''age'', ''bmi''],
                   scaler_transform = stub_transform \<rparr>"

definition drifted_scaler :: scaler_obj where
  "drifted_scaler = \<lparr> scaler_feature_names_in = Some [''age'', ''height''],
                      scaler_transform = stub_transform \<rparr>"

definition stub_model :: model_obj where
  "stub_model =
     \<lparr> model_feature_names_in = Some [''age'', ''gender'', ''bmi''],
       model_predict_proba =
         (\<lambda>vals. if length vals \<noteq> 3
                  then Inl (Raised ''X has a different number of features than the model expects'')
                  else if list_all is_numeric vals then Inr [[0.38, 0.62]]
                  else Inl (Raised ''could not convert string to float'')) \<rparr>"

definition narrow_scaler :: scaler_obj where
  "narrow_scaler = \<lparr> scaler_feature_names_in = Some [''age'', ''bmi''],
                     scaler_transform = (\<lambda>df. Inr [1 / 2]) \<rparr>"

definition wide_scaler :: scaler_obj where
  "wide_scaler = \<lparr> scaler_feature_names_in = Some [''age''],
                   scaler_transform = (\<lambda>df. Inr [1 / 2, 7]) \<rparr>"

section \<open>Properties of the risk interpreter\<close>

lemma get_risk_metadata_level:
  "fst (get_risk_metadata p) =
     (if p < 0.3 then ''Low'' else if p < 0.7 then ''Moderate'' else ''High'')"
  by (simp add: get_risk_metadata_def)

lemma get_risk_metadata_confidence:
  "fst (snd (get_risk_metadata p)) = \<bar>p - 0.5\<bar> * 2"
  by (simp add: get_risk_metadata_def)

text \<open>
  Claim C3. For every probability \<open>p\<close> the risk level is \<^verbatim>\<open>Low\<close> when \<open>p < 0.3\<close>,
  \<^verbatim>\<open>Moderate\<close> when \<open>0.3 \<le> p < 0.7\<close> and \<^verbatim>\<open>High\<close> when \<open>p \<ge> 0.7\<close>; at the boundaries,
  0.29 is \<^verbatim>\<open>Low\<close>, 0.3 and 0.69 are \<^verbatim>\<open>Moderate\<close>, 0.7 is \<^verbatim>\<open>High\<close>.
\<close>

theorem risk_level_bands:
  "(p < 0.3 \<longrightarrow> fst (get_risk_metadata p) = ''Low'') \<and>
   (0.3 \<le> p \<and> p < 0.7 \<longrightarrow> fst (get_risk_metadata p) = ''Moderate'') \<and>
   (0.7 \<le> p \<longrightarrow> fst (get_risk_metadata p) = ''High'') \<and>
   fst (get_risk_metadata 0.29) = ''Low'' \<and>
   fst (get_risk_metadata 0.3) = ''Moderate'' \<and>
   fst (get_risk_metadata 0.69) = ''Moderate'' \<and>
   fst (get_risk_metadata 0.7) = ''High''"
  by (simp add: get_risk_metadata_level)

theorem risk_level_bands_witness:
  "(0.1::real) < 0.3 \<and> fst (get_risk_metadata 0.1) = ''Low'' \<and>
   (0.3::real) \<le> 0.5 \<and> (0.5::real) < 0.7 \<and> fst (get_risk_metadata 0.5) = ''Moderate'' \<and>
   (0.7::real) \<le> 0.9 \<and> fst (get_risk_metadata 0.9) = ''High''"
  using risk_level_bands [of "0.1"] risk_level_bands [of "0.5"] risk_level_bands [of "0.9"]
  by simp

text \<open>
  Claim C6. For every probability \<open>p\<close> in \<open>[0, 1]\<close> the confidence is \<open>\<bar>p - 0.5\<bar> * 2\<close> and lies
  in \<open>[0, 1]\<close> with no clamping; it is 0 at 0.5 and 1 at 0 and at 1.
\<close>

theorem confidence_formula:
  "(0 \<le> p \<and> p \<le> 1 \<longrightarrow>
      fst (snd (get_risk_metadata p)) = \<bar>p - 0.5\<bar> * 2 \<and>
      0 \<le> fst (snd (get_risk_metadata p)) \<and> fst (snd (get_risk_metadata p)) \<le> 1) \<and>
   fst (snd (get_risk_metadata 0.5)) = 0 \<and>
   fst (snd (get_risk_metadata 0)) = 1 \<and>
   fst (snd (get_risk_metadata 1)) = 1"
  by (simp add: get_risk_metadata_confidence abs_if)

theorem confidence_formula_witness:
  "(0::real) \<le> 0.62 \<and> (0.62::real) \<le> 1 \<and>
   fst (snd (get_risk_metadata 0.62)) = 0.24 \<and>
   0 \<le> fst (snd (get_risk_metadata 0.62)) \<and> fst (snd (get_risk_metadata 0.62)) \<le> 1"
  using confidence_formula [of "0.62"] by simp

section \<open>Properties of the endpoints\<close>

text \<open>
  Claim C10. The health check answers \<^verbatim>\<open>status = "healthy"\<close> in every state of the globals,
  also when nothing is loaded; only \<^verbatim>\<open>artifacts_loaded\<close> depends on them, and it is true
  exactly when the model, the scaler and the feature-column list are all loaded.
\<close>

theorem health_check_always_healthy:
  "status (health_check st) = ''healthy'' \<and>
   artifacts_loaded (health_check st) =
     (model st \<noteq> None \<and> scaler st \<noteq> None \<and> feature_columns st \<noteq> None) \<and>
   health_check \<lparr> model = None, scaler = None, feature_columns = None \<rparr> =
     \<lparr> status = ''healthy'', artifacts_loaded = False \<rparr>"
  by (simp add: health_check_def)

text \<open>
  Claim C7. A request that arrives while the model, the scaler or the feature-column list
  is not loaded gets the 503 error and nothing else happens: no call into an artifact
  (the trace of events is empty) and no prediction.
\<close>

theorem predict_service_unavailable:
  "model st = None \<or> scaler st = None \<or> feature_columns st = None \<Longrightarrow>
   predict st features = (Inl (HTTPException 503 ''Model artifacts are not loaded.''), [])"
  by (auto simp: predict_def split: option.splits)

theorem predict_service_unavailable_witness:
  "(model \<lparr> model = Some \<lparr> model_feature_names_in = None,
                            model_predict_proba = (\<lambda>vals. Inr [[0.38, 0.62]]) \<rparr>,
             scaler = None, feature_columns = Some [''age''] \<rparr> = None \<or>
    scaler \<lparr> model = Some \<lparr> model_feature_names_in = None,
                             model_predict_proba = (\<lambda>vals. Inr [[0.38, 0.62]]) \<rparr>,
              scaler = None, feature_columns = Some [''age''] \<rparr> = None \<or>
    feature_columns \<lparr> model = Some \<lparr> model_feature_names_in = None,
                                      model_predict_proba = (\<lambda>vals. Inr [[0.38, 0.62]]) \<rparr>,
                       scaler = None, feature_columns = Some [''age''] \<rparr> = None) \<and>
   predict \<lparr> model = Some \<lparr> model_feature_names_in = None,
                             model_predict_proba = (\<lambda>vals. Inr [[0.38, 0.62]]) \<rparr>,
             scaler = None, feature_columns = Some [''age''] \<rparr>
     [''age'' \<mapsto> JNum 30]
   = (Inl (HTTPException 503 ''Model artifacts are not loaded.''), [])"
  using predict_service_unavailable
    [of "\<lparr> model = Some \<lparr> model_feature_names_in = None,
                            model_predict_proba = (\<lambda>vals. Inr [[0.38, 0.62]]) \<rparr>,
            scaler = None, feature_columns = Some [''age''] \<rparr>" "[''age'' \<mapsto> JNum 30]"]
  by simp

section \<open>Properties of the feature reconciler\<close>

lemma set_column_length:
  "length (set_column df c v) = (if c \<in> fst ` set df then length df else Suc (length df))"
  by (simp add: set_column_def)

lemma set_column_nth:
  "j < length df \<Longrightarrow>
   set_column df c v ! j = (fst (df ! j), if fst (df ! j) = c then v else snd (df ! j))"
proof -
  assume j: "j < length df"
  then have mem: "fst (df ! j) \<in> fst ` set df" by simp
  show ?thesis
  proof (cases "c \<in> fst ` set df")
    case True
    with j show ?thesis by (simp add: set_column_def split: prod.splits)
  next
    case False
    with mem have "fst (df ! j) \<noteq> c" by auto
    with j False show ?thesis by (simp add: set_column_def nth_append)
  qed
qed

lemma set_column_names_present:
  "c \<in> fst ` set df \<Longrightarrow> map fst (set_column df c v) = map fst df"
  by (auto simp: set_column_def split: prod.splits)

lemma set_column_names_absent:
  "c \<notin> fst ` set df \<Longrightarrow> map fst (set_column df c v) = map fst df @ [c]"
  by (auto simp: set_column_def)

lemma update_scaled_ok:
  "n + length cols \<le> length scaled \<Longrightarrow>
   \<exists>df'. update_scaled df (enumerate n cols) scaled = Inr df'"
  by (induction cols arbitrary: df n) auto

lemma update_scaled_short:
  "cols \<noteq> [] \<Longrightarrow> length scaled < n + length cols \<Longrightarrow>
   update_scaled df (enumerate n cols) scaled =
     Inl (out_of_bounds (max n (length scaled)) 1 (length scaled))"
proof (induction cols arbitrary: df n)
  case Nil
  then show ?case by simp
next
  case (Cons c cs)
  show ?case
  proof (cases "n < length scaled")
    case True
    with Cons.prems have "cs \<noteq> []" "length scaled < Suc n + length cs" by auto
    from Cons.IH [OF this] True show ?thesis by (simp add: max_def)
  next
    case False
    then show ?thesis by (simp add: max_def)
  qed
qed


lemma update_scaled_names_subset:
  "set cols \<subseteq> fst ` set df \<Longrightarrow> update_scaled df (enumerate n cols) scaled = Inr df' \<Longrightarrow>
   map fst df' = map fst df"
proof (induction cols arbitrary: df n)
  case Nil
  then show ?case by simp
next
  case (Cons c cs)
  from Cons.prems have lt: "n < length scaled" by (auto split: if_splits)
  let ?d = "set_column df c (JNum (scaled ! n))"
  have names: "map fst ?d = map fst df" using Cons.prems(1) by (simp add: set_column_names_present)
  then have "fst ` set ?d = fst ` set df" by (metis set_map)
  with Cons.prems(1) have "set cs \<subseteq> fst ` set ?d" by simp
  moreover from Cons.prems(2) lt have "update_scaled ?d (enumerate (Suc n) cs) scaled = Inr df'" by simp
  ultimately have "map fst df' = map fst ?d" by (rule Cons.IH)
  with names show ?case by simp
qed

lemma update_scaled_nth:
  assumes "update_scaled df (enumerate n cols) scaled = Inr df'" and "j < length df"
  shows "j < length df' \<and> fst (df' ! j) = fst (df ! j) \<and>
         (fst (df ! j) \<notin> set cols \<longrightarrow> snd (df' ! j) = snd (df ! j)) \<and>
         (fst (df ! j) \<in> set cols \<longrightarrow>
            (\<exists>i<length cols. cols ! i = fst (df ! j) \<and>
               (\<forall>k. i < k \<and> k < length cols \<longrightarrow> cols ! k \<noteq> fst (df ! j)) \<and>
               n + i < length scaled \<and> snd (df' ! j) = JNum (scaled ! (n + i))))"
  using assms
proof (induction cols arbitrary: df n)
  case Nil
  then show ?case by simp
next
  case (Cons c cs)
  from Cons.prems have lt: "n < length scaled" by (auto split: if_splits)
  let ?d = "set_column df c (JNum (scaled ! n))"
  from Cons.prems(1) lt have run: "update_scaled ?d (enumerate (Suc n) cs) scaled = Inr df'" by simp
  have j: "j < length ?d" using Cons.prems(2) by (simp add: set_column_length)
  have dj: "?d ! j = (fst (df ! j), if fst (df ! j) = c then JNum (scaled ! n) else snd (df ! j))"
    using Cons.prems(2) by (rule set_column_nth)
  note ih = Cons.IH [OF run j]
  show ?case
  proof (cases "fst (df ! j) \<in> set cs")
    case True
    with ih dj obtain i where i: "i < length cs" "cs ! i = fst (df ! j)"
      "\<forall>k. i < k \<and> k < length cs \<longrightarrow> cs ! k \<noteq> fst (df ! j)"
      "Suc n + i < length scaled" "snd (df' ! j) = JNum (scaled ! (Suc n + i))"
      by auto
    have "\<forall>k. Suc i < k \<and> k < length (c # cs) \<longrightarrow> (c # cs) ! k \<noteq> fst (df ! j)"
    proof (intro allI impI)
      fix k assume k: "Suc i < k \<and> k < length (c # cs)"
      then obtain k' where k': "k = Suc k'" by (cases k) auto
      with k i(3) show "(c # cs) ! k \<noteq> fst (df ! j)" by auto
    qed
    with i have "Suc i < length (c # cs) \<and> (c # cs) ! Suc i = fst (df ! j) \<and>
       (\<forall>k. Suc i < k \<and> k < length (c # cs) \<longrightarrow> (c # cs) ! k \<noteq> fst (df ! j)) \<and>
       n + Suc i < length scaled \<and> snd (df' ! j) = JNum (scaled ! (n + Suc i))"
      by simp
    then have "\<exists>i<length (c # cs). (c # cs) ! i = fst (df ! j) \<and>
       (\<forall>k. i < k \<and> k < length (c # cs) \<longrightarrow> (c # cs) ! k \<noteq> fst (df ! j)) \<and>
       n + i < length scaled \<and> snd (df' ! j) = JNum (scaled ! (n + i))"
      by blast
    with ih dj True show ?thesis by simp
  next
    case False
    note notin = this
    show ?thesis
    proof (cases "fst (df ! j) = c")
      case True
      have "\<forall>k. 0 < k \<and> k < length (c # cs) \<longrightarrow> (c # cs) ! k \<noteq> fst (df ! j)"
      proof (intro allI impI)
        fix k assume k: "0 < k \<and> k < length (c # cs)"
        then obtain k' where k': "k = Suc k'" by (cases k) auto
        with k have "cs ! k' \<in> set cs" by simp
        with notin k' show "(c # cs) ! k \<noteq> fst (df ! j)" by auto
      qed
      with True ih dj notin lt have "0 < length (c # cs) \<and> (c # cs) ! 0 = fst (df ! j) \<and>
        (\<forall>k. 0 < k \<and> k < length (c # cs) \<longrightarrow> (c # cs) ! k \<noteq> fst (df ! j)) \<and>
        n + 0 < length scaled \<and> snd (df' ! j) = JNum (scaled ! (n + 0))"
        by simp
      then have "\<exists>i<length (c # cs). (c # cs) ! i = fst (df ! j) \<and>
       (\<forall>k. i < k \<and> k < length (c # cs) \<longrightarrow> (c # cs) ! k \<noteq> fst (df ! j)) \<and>
       n + i < length scaled \<and> snd (df' ! j) = JNum (scaled ! (n + i))"
        by blast
      with ih dj True show ?thesis by simp
    next
      case False
      with ih dj notin show ?thesis by simp
    qed
  qed
qed

lemma reindex_cong:
  "(\<And>c. c \<in> set cols \<Longrightarrow> f c = g c) \<Longrightarrow> reindex f cols = reindex g cols"
  by (simp add: reindex_def)

lemma reindex_length: "length (reindex f cols) = length cols"
  by (simp add: reindex_def)

lemma reindex_names: "map fst (reindex f cols) = cols"
  by (simp add: reindex_def comp_def)

lemma reindex_nth:
  "j < length cols \<Longrightarrow>
   reindex f cols ! j = (cols ! j, case f (cols ! j) of None \<Rightarrow> JNum 0 | Some v \<Rightarrow> v)"
  by (simp add: reindex_def)

lemma update_scaled_cong:
  "n + length cols \<le> length scaled \<Longrightarrow> n + length cols \<le> length scaled' \<Longrightarrow>
   (\<And>i. n \<le> i \<Longrightarrow> i < n + length cols \<Longrightarrow> scaled ! i = scaled' ! i) \<Longrightarrow>
   update_scaled df (enumerate n cols) scaled = update_scaled df (enumerate n cols) scaled'"
proof (induction cols arbitrary: df n)
  case Nil
  then show ?case by simp
next
  case (Cons c cs)
  have eq: "scaled ! n = scaled' ! n" using Cons.prems(3) [of n] by simp
  have "update_scaled (set_column df c (JNum (scaled ! n))) (enumerate (Suc n) cs) scaled =
        update_scaled (set_column df c (JNum (scaled ! n))) (enumerate (Suc n) cs) scaled'"
    using Cons.prems by (intro Cons.IH) auto
  with Cons.prems(1,2) eq show ?case by simp
qed

lemma update_scaled_take:
  "length cols \<le> length scaled \<Longrightarrow>
   update_scaled df (enumerate 0 cols) scaled =
   update_scaled df (enumerate 0 cols) (take (length cols) scaled)"
  by (rule update_scaled_cong) auto

lemma reindex_empty_record: "reindex Map.empty cols = map (\<lambda>c. (c, JNum 0)) cols"
  by (simp add: reindex_def)

lemma reindex_missing_zero:
  "j < length cols \<Longrightarrow> features (cols ! j) = None \<Longrightarrow>
   reindex features cols ! j = (cols ! j, JNum 0)"
  by (simp add: reindex_nth)

lemma reindex_present:
  "features c = Some v \<Longrightarrow> c \<in> set cols \<Longrightarrow> (c, v) \<in> set (reindex features cols)"
  by (force simp: reindex_def)

lemma reconcile_model_only_kept:
  assumes "reconcile s m fc features = Inr final"
    and "j < length (model_features m fc)"
    and "model_features m fc ! j \<notin> set (scaler_features s fc)"
  shows "j < length final \<and> final ! j = reindex features (model_features m fc) ! j"
proof -
  let ?sf = "scaler_features s fc" and ?mf = "model_features m fc"
  let ?df = "reindex features ?mf"
  from assms(1) obtain scaled where
    run: "update_scaled ?df (enumerate 0 ?sf) scaled = Inr final"
    by (auto simp: reconcile_def split: sum.splits)
  have j: "j < length ?df" using assms(2) by (simp add: reindex_length)
  have name: "fst (?df ! j) = ?mf ! j" using assms(2) by (simp add: reindex_nth)
  from update_scaled_nth [OF run j] name assms(3)
  have "j < length final" "fst (final ! j) = fst (?df ! j)" "snd (final ! j) = snd (?df ! j)"
    by auto
  then show ?thesis by (simp add: prod_eq_iff)
qed

lemma reconcile_columns_when_subset:
  assumes "reconcile s m fc features = Inr final"
    and "set (scaler_features s fc) \<subseteq> set (model_features m fc)"
  shows "map fst final = model_features m fc"
proof -
  let ?sf = "scaler_features s fc" and ?mf = "model_features m fc"
  from assms(1) obtain scaled where
    run: "update_scaled (reindex features ?mf) (enumerate 0 ?sf) scaled = Inr final"
    by (auto simp: reconcile_def split: sum.splits)
  have "fst ` set (reindex features ?mf) = set ?mf"
    by (metis reindex_names set_map)
  with assms(2) have "set ?sf \<subseteq> fst ` set (reindex features ?mf)" by simp
  from update_scaled_names_subset [OF this run] show ?thesis by (simp add: reindex_names)
qed

text \<open>
  With every scaler column among the model's columns, the empty record gives a row of the
  model's width whose model-only columns are 0.
\<close>

lemma reconcile_empty_record_when_subset:
  assumes "reconcile s m fc Map.empty = Inr final"
    and "set (scaler_features s fc) \<subseteq> set (model_features m fc)"
    and "j < length (model_features m fc)"
    and "model_features m fc ! j \<notin> set (scaler_features s fc)"
  shows "length final = length (model_features m fc) \<and> final ! j = (model_features m fc ! j, JNum 0)"
proof -
  from reconcile_columns_when_subset [OF assms(1,2)]
  have "length (map fst final) = length (model_features m fc)" by simp
  moreover from reconcile_model_only_kept [OF assms(1,3,4)] assms(3)
  have "final ! j = (model_features m fc ! j, JNum 0)" by (simp add: reindex_nth)
  ultimately show ?thesis by simp
qed

lemma predict_loaded:
  "model st = Some m \<Longrightarrow> scaler st = Some s \<Longrightarrow> feature_columns st = Some fc \<Longrightarrow>
   predict st features =
     (let called = [CallTransform (reindex features (scaler_features s fc))]
      in case reconcile s m fc features of
           Inl e \<Rightarrow> prediction_failed e called
         | Inr final_df \<Rightarrow>
             (let vals = map snd final_df;
                  called = called @ [CallPredictProba vals]
              in case model_predict_proba m vals of
                   Inl e \<Rightarrow> prediction_failed e called
                 | Inr proba \<Rightarrow>
                     (case positive_class proba of
                        Inl e \<Rightarrow> prediction_failed e called
                      | Inr prediction_proba \<Rightarrow>
                          (let (risk_level, confidence, vitality_score, recommendation) =
                                 get_risk_metadata prediction_proba
                           in (Inr \<lparr> risk_probability = py_round prediction_proba 4,
                                     risk_level = risk_level,
                                     confidence = py_round confidence 4,
                                     vitality_score = py_round vitality_score 2,
                                     recommendation = recommendation \<rparr>,
                               called)))))"
  by (simp add: predict_def)

lemma predict_reconcile_failed:
  "model st = Some m \<Longrightarrow> scaler st = Some s \<Longrightarrow> feature_columns st = Some fc \<Longrightarrow>
   reconcile s m fc features = Inl e \<Longrightarrow>
   predict st features =
     prediction_failed e [CallTransform (reindex features (scaler_features s fc))]"
  by (simp add: predict_loaded)

lemma predict_classifier_failed:
  "model st = Some m \<Longrightarrow> scaler st = Some s \<Longrightarrow> feature_columns st = Some fc \<Longrightarrow>
   reconcile s m fc features = Inr final \<Longrightarrow> model_predict_proba m (map snd final) = Inl e \<Longrightarrow>
   predict st features =
     prediction_failed e [CallTransform (reindex features (scaler_features s fc)),
                          CallPredictProba (map snd final)]"
  by (simp add: predict_loaded)

lemma predict_cong_features:
  assumes "model st = Some m" "scaler st = Some s" "feature_columns st = Some fc"
    and "\<And>c. c \<in> set (scaler_features s fc) \<union> set (model_features m fc) \<Longrightarrow> f c = g c"
  shows "predict st f = predict st g"
proof -
  have e1: "reindex f (scaler_features s fc) = reindex g (scaler_features s fc)"
    using assms(4) by (intro reindex_cong) auto
  have e2: "reindex f (model_features m fc) = reindex g (model_features m fc)"
    using assms(4) by (intro reindex_cong) auto
  have "reconcile s m fc f = reconcile s m fc g"
    unfolding reconcile_def e1 e2 by (simp only:)
  then show ?thesis
    unfolding predict_loaded [OF assms(1-3)] e1 by (simp only:)
qed

lemmas stub_defs = stub_scaler_def drifted_scaler_def narrow_scaler_def wide_scaler_def
  stub_model_def stub_transform_def scaler_features_def model_features_def

lemmas run_defs = predict_def prediction_failed_def reconcile_def reindex_def set_column_def
  positive_class_def get_risk_metadata_def py_round_def out_of_bounds_def str_nat.simps

subsection \<open>Width and order of the final frame\<close>

text \<open>
  Claim C1. The claim is that the final frame always has the model's columns and no
  others, a scaler-only column being dropped. The loop assigns \<^verbatim>\<open>final_df[col]\<close> for every
  scaler column, and pandas appends a column that the frame does not have: with scaler
  columns \<^verbatim>\<open>age, height\<close> and model columns \<^verbatim>\<open>age, gender, bmi\<close> the frame that goes to the
  classifier has four columns, the last being \<^verbatim>\<open>height\<close>, and a classifier that checks
  its input width rejects it.
\<close>

theorem reconcile_appends_scaler_only_column:
  "reconcile drifted_scaler stub_model [] [''age'' \<mapsto> JNum 45, ''gender'' \<mapsto> JNum 1]
     = Inr [(''age'', JNum (1 / 2)), (''gender'', JNum 1), (''bmi'', JNum 0), (''height'', JNum (- 4))] \<and>
   model_features stub_model [] = [''age'', ''gender'', ''bmi''] \<and>
   predict \<lparr> model = Some stub_model, scaler = Some drifted_scaler, feature_columns = Some [] \<rparr>
       [''age'' \<mapsto> JNum 45, ''gender'' \<mapsto> JNum 1]
     = (Inl (HTTPException 500
              ''Prediction failed: X has a different number of features than the model expects''),
        [CallTransform [(''age'', JNum 45), (''height'', JNum 0)],
         CallPredictProba [JNum (1 / 2), JNum 1, JNum 0, JNum (- 4)],
         LogError ''Prediction error: X has a different number of features than the model expects''])"
  by (simp add: predict_def prediction_failed_def reconcile_def stub_defs reindex_def set_column_def)

subsection \<open>Overlapping columns carry the transformed value\<close>

text \<open>
  Claim C2. When the transform returns a row at least as wide as the scaler's schema,
  reconciliation succeeds, and every column of the model's schema whose name is also in
  the scaler's schema holds, in the final frame, the transformed value for that name (the
  one at the last position of the name in the scaler's schema), whatever the record held.
\<close>

theorem reconcile_overlap_transformed:
  assumes "scaler_transform s (reindex features (scaler_features s fc)) = Inr scaled"
    and "length (scaler_features s fc) \<le> length scaled"
    and "j < length (model_features m fc)"
    and "model_features m fc ! j \<in> set (scaler_features s fc)"
  shows "\<exists>final i. reconcile s m fc features = Inr final \<and> j < length final \<and>
           i < length (scaler_features s fc) \<and>
           scaler_features s fc ! i = model_features m fc ! j \<and>
           (\<forall>k. i < k \<and> k < length (scaler_features s fc) \<longrightarrow>
                  scaler_features s fc ! k \<noteq> model_features m fc ! j) \<and>
           final ! j = (model_features m fc ! j, JNum (scaled ! i))"
proof -
  let ?sf = "scaler_features s fc" and ?mf = "model_features m fc"
  let ?df = "reindex features ?mf"
  from assms(2) obtain final where run: "update_scaled ?df (enumerate 0 ?sf) scaled = Inr final"
    using update_scaled_ok [of 0 ?sf scaled ?df] by auto
  with assms(1) have rec: "reconcile s m fc features = Inr final"
    by (simp add: reconcile_def)
  have j: "j < length ?df" using assms(3) by (simp add: reindex_length)
  have name: "fst (?df ! j) = ?mf ! j" using assms(3) by (simp add: reindex_nth)
  from update_scaled_nth [OF run j] name assms(4)
  obtain i where i: "j < length final" "fst (final ! j) = ?mf ! j" "i < length ?sf"
    "?sf ! i = ?mf ! j" "\<forall>k. i < k \<and> k < length ?sf \<longrightarrow> ?sf ! k \<noteq> ?mf ! j"
    "snd (final ! j) = JNum (scaled ! i)"
    by auto
  from i(2,6) have "final ! j = (?mf ! j, JNum (scaled ! i))" by (simp add: prod_eq_iff)
  with rec i show ?thesis by blast
qed

theorem reconcile_overlap_transformed_witness:
  "scaler_transform stub_scaler
     (reindex [''age'' \<mapsto> JNum 45, ''gender'' \<mapsto> JNum 1] (scaler_features stub_scaler []))
     = Inr [1 / 2, - 4] \<and>
   length (scaler_features stub_scaler []) \<le> length [1 / 2, - 4 :: real] \<and>
   0 < length (model_features stub_model []) \<and>
   model_features stub_model [] ! 0 \<in> set (scaler_features stub_scaler []) \<and>
   (\<exists>final i. reconcile stub_scaler stub_model [] [''age'' \<mapsto> JNum 45, ''gender'' \<mapsto> JNum 1]
                 = Inr final \<and> 0 < length final \<and>
       i < length (scaler_features stub_scaler []) \<and>
       scaler_features stub_scaler [] ! i = model_features stub_model [] ! 0 \<and>
       (\<forall>k. i < k \<and> k < length (scaler_features stub_scaler []) \<longrightarrow>
              scaler_features stub_scaler [] ! k \<noteq> model_features stub_model [] ! 0) \<and>
       final ! 0 = (model_features stub_model [] ! 0, JNum ([1 / 2, - 4] ! i)))"
proof -
  have h1: "scaler_transform stub_scaler
     (reindex [''age'' \<mapsto> JNum 45, ''gender'' \<mapsto> JNum 1] (scaler_features stub_scaler []))
     = Inr [1 / 2, - 4]"
    by (simp add: stub_defs reindex_def)
  have h2: "length (scaler_features stub_scaler []) \<le> length [1 / 2, - 4 :: real]"
    by (simp add: stub_defs)
  have h3: "0 < length (model_features stub_model [])"
    by (simp add: stub_defs)
  have h4: "model_features stub_model [] ! 0 \<in> set (scaler_features stub_scaler [])"
    by (simp add: stub_defs)
  from reconcile_overlap_transformed [OF h1 h2 h3 h4] h1 h2 h3 h4 show ?thesis by blast
qed

subsection \<open>Missing fields\<close>

text \<open>
  Claim C4. The claim is that every missing field is filled with 0 before the transform
  and that the empty record yields a row of the model's width whose columns outside the
  scaler's schema are 0. The fill is 0 (\<open>reindex_missing_zero\<close>), but the width fails
  where the scaler has a column the model has not: with scaler columns \<^verbatim>\<open>age, height\<close>
  and model columns \<^verbatim>\<open>age, gender, bmi\<close> the empty record yields four columns, and the
  appended one holds the transformed value, not 0.
\<close>

theorem reconcile_empty_record_drifted:
  "reconcile drifted_scaler stub_model [] Map.empty
     = Inr [(''age'', JNum (- 4)), (''gender'', JNum 0), (''bmi'', JNum 0), (''height'', JNum (- 4))] \<and>
   length (model_features stub_model []) = 3 \<and>
   scaler_transform drifted_scaler [(''age'', JNum 0), (''height'', JNum 0)] = Inr [- 4, - 4]"
  by (simp add: reconcile_def stub_defs reindex_def set_column_def)

subsection \<open>Unknown fields\<close>

text \<open>
  Claim C5. For every record and every set of field names that occur in neither schema,
  reconciling the record gives the same result as reconciling it with those fields removed.
\<close>

theorem reconcile_ignores_unknown_fields:
  assumes "X \<inter> (set (scaler_features s fc) \<union> set (model_features m fc)) = {}"
  shows "reconcile s m fc features = reconcile s m fc (features |` (- X))"
proof -
  have "reindex (features |` (- X)) (scaler_features s fc) = reindex features (scaler_features s fc)"
    using assms by (intro reindex_cong) (auto simp: restrict_map_def)
  moreover
  have "reindex (features |` (- X)) (model_features m fc) = reindex features (model_features m fc)"
    using assms by (intro reindex_cong) (auto simp: restrict_map_def)
  ultimately show ?thesis unfolding reconcile_def by (simp only:)
qed

theorem reconcile_ignores_unknown_fields_witness:
  "{''shoe_size''} \<inter> (set (scaler_features stub_scaler []) \<union> set (model_features stub_model [])) = {} \<and>
   reconcile stub_scaler stub_model []
     [''age'' \<mapsto> JNum 45, ''gender'' \<mapsto> JNum 1, ''shoe_size'' \<mapsto> JStr ''abc'']
   = reconcile stub_scaler stub_model []
     ([''age'' \<mapsto> JNum 45, ''gender'' \<mapsto> JNum 1, ''shoe_size'' \<mapsto> JStr ''abc''] |` (- {''shoe_size''})) \<and>
   reconcile stub_scaler stub_model []
     [''age'' \<mapsto> JNum 45, ''gender'' \<mapsto> JNum 1, ''shoe_size'' \<mapsto> JStr ''abc'']
   = Inr [(''age'', JNum (1 / 2)), (''gender'', JNum 1), (''bmi'', JNum (- 4))]"
proof -
  have h: "{''shoe_size''} \<inter> (set (scaler_features stub_scaler []) \<union> set (model_features stub_model [])) = {}"
    by (simp add: stub_defs)
  have v: "reconcile stub_scaler stub_model []
     [''age'' \<mapsto> JNum 45, ''gender'' \<mapsto> JNum 1, ''shoe_size'' \<mapsto> JStr ''abc'']
   = Inr [(''age'', JNum (1 / 2)), (''gender'', JNum 1), (''bmi'', JNum (- 4))]"
    by (simp add: reconcile_def stub_defs reindex_def set_column_def)
  from reconcile_ignores_unknown_fields [OF h] h v show ?thesis by blast
qed

subsection \<open>Width of the transform's output\<close>

text \<open>
  Claim C8, as stated: a transformed row whose width differs from the length of the
  scaler's schema is a fatal configuration error and not a per-request error. It fails on
  the code, which never compares the two: a row that is too narrow makes the loop read a
  column that is not there, and the request is answered with the 500 error of every failed
  prediction; a row that is too wide is accepted and the request is served.
\<close>

theorem transform_width_mismatch_counterexample:
  "scaler_transform narrow_scaler
      (reindex [''age'' \<mapsto> JNum 45] (scaler_features narrow_scaler [])) = Inr [1 / 2] \<and>
   length (scaler_features narrow_scaler []) = 2 \<and>
   predict \<lparr> model = Some stub_model, scaler = Some narrow_scaler, feature_columns = Some [] \<rparr>
       [''age'' \<mapsto> JNum 45]
     = (Inl (HTTPException 500
               ''Prediction failed: index 1 is out of bounds for axis 1 with size 1''),
        [CallTransform [(''age'', JNum 45), (''bmi'', JNum 0)],
         LogError ''Prediction error: index 1 is out of bounds for axis 1 with size 1'']) \<and>
   scaler_transform wide_scaler
      (reindex [''age'' \<mapsto> JNum 45] (scaler_features wide_scaler [])) = Inr [1 / 2, 7] \<and>
   length (scaler_features wide_scaler []) = 1 \<and>
   predict \<lparr> model = Some stub_model, scaler = Some wide_scaler, feature_columns = Some [] \<rparr>
       [''age'' \<mapsto> JNum 45]
     = (Inr \<lparr> risk_probability = 0.62, risk_level = ''Moderate'', confidence = 0.24,
              vitality_score = 38,
              recommendation = ''Some indicators suggest potential risks. Consider consulting a professional and reviewing your diet/exercise habits.'' \<rparr>,
        [CallTransform [(''age'', JNum 45)],
         CallPredictProba [JNum (1 / 2), JNum 0, JNum 0]])"
  by (simp add: run_defs stub_defs)

text \<open>
  Claim C8, amended. With the artifacts loaded and a transform that returns a row: when the
  row is narrower than the scaler's schema, the request fails with the per-request 500 error
  \<^verbatim>\<open>Prediction failed: index n is out of bounds for axis 1 with size n\<close>, \<open>n\<close> the width of
  the row; when it is wider, reconciliation succeeds with the result it has on the row cut
  to the length of the schema.
\<close>

theorem transform_width_not_checked:
  assumes "model st = Some m" and "scaler st = Some s" and "feature_columns st = Some fc"
    and "scaler_transform s (reindex features (scaler_features s fc)) = Inr scaled"
  shows "(length scaled < length (scaler_features s fc) \<longrightarrow>
            fst (predict st features) =
              Inl (HTTPException 500
                    (''Prediction failed: '' @
                     str_exn (out_of_bounds (length scaled) 1 (length scaled))))) \<and>
         (length (scaler_features s fc) < length scaled \<longrightarrow>
            (\<exists>final. reconcile s m fc features = Inr final \<and>
               update_scaled (reindex features (model_features m fc))
                 (enumerate 0 (scaler_features s fc))
                 (take (length (scaler_features s fc)) scaled) = Inr final))"
proof (intro conjI impI)
  let ?sf = "scaler_features s fc" and ?mf = "model_features m fc"
  assume short: "length scaled < length ?sf"
  then have "?sf \<noteq> []" by auto
  from update_scaled_short [OF this, of scaled 0 "reindex features ?mf"] short
  have "update_scaled (reindex features ?mf) (enumerate 0 ?sf) scaled =
          Inl (out_of_bounds (length scaled) 1 (length scaled))"
    by simp
  with assms(4) have "reconcile s m fc features = Inl (out_of_bounds (length scaled) 1 (length scaled))"
    by (simp add: reconcile_def)
  from predict_reconcile_failed [OF assms(1-3) this]
  show "fst (predict st features) =
          Inl (HTTPException 500
                (''Prediction failed: '' @ str_exn (out_of_bounds (length scaled) 1 (length scaled))))"
    by (simp add: prediction_failed_def)
next
  let ?sf = "scaler_features s fc" and ?mf = "model_features m fc"
  assume wide: "length ?sf < length scaled"
  then have le: "length ?sf \<le> length scaled" by simp
  from update_scaled_ok [of 0 ?sf scaled "reindex features ?mf"] le
  obtain final where run: "update_scaled (reindex features ?mf) (enumerate 0 ?sf) scaled = Inr final"
    by auto
  with assms(4) have "reconcile s m fc features = Inr final" by (simp add: reconcile_def)
  moreover from run update_scaled_take [OF le, of "reindex features ?mf"]
  have "update_scaled (reindex features ?mf) (enumerate 0 ?sf) (take (length ?sf) scaled) = Inr final"
    by simp
  ultimately show "\<exists>final. reconcile s m fc features = Inr final \<and>
      update_scaled (reindex features ?mf) (enumerate 0 ?sf) (take (length ?sf) scaled) = Inr final"
    by blast
qed

theorem transform_width_not_checked_witness:
  "length [1 / 2 :: real] < length (scaler_features narrow_scaler []) \<and>
   fst (predict \<lparr> model = Some stub_model, scaler = Some narrow_scaler, feature_columns = Some [] \<rparr>
          [''age'' \<mapsto> JNum 45])
     = Inl (HTTPException 500 ''Prediction failed: index 1 is out of bounds for axis 1 with size 1'') \<and>
   length (scaler_features wide_scaler []) < length [1 / 2, 7 :: real] \<and>
   reconcile wide_scaler stub_model [] [''age'' \<mapsto> JNum 45]
     = Inr [(''age'', JNum (1 / 2)), (''gender'', JNum 0), (''bmi'', JNum 0)] \<and>
   update_scaled (reindex [''age'' \<mapsto> JNum 45] (model_features stub_model []))
       (enumerate 0 (scaler_features wide_scaler []))
       (take (length (scaler_features wide_scaler [])) [1 / 2, 7])
     = Inr [(''age'', JNum (1 / 2)), (''gender'', JNum 0), (''bmi'', JNum 0)]"
proof -
  let ?narrow = "\<lparr> model = Some stub_model, scaler = Some narrow_scaler, feature_columns = Some [] \<rparr>"
  let ?wide = "\<lparr> model = Some stub_model, scaler = Some wide_scaler, feature_columns = Some [] \<rparr>"
  have n: "scaler_transform narrow_scaler
      (reindex [''age'' \<mapsto> JNum 45] (scaler_features narrow_scaler [])) = Inr [1 / 2]"
    by (simp add: stub_defs)
  have w: "scaler_transform wide_scaler
      (reindex [''age'' \<mapsto> JNum 45] (scaler_features wide_scaler [])) = Inr [1 / 2, 7]"
    by (simp add: stub_defs)
  have r: "reconcile wide_scaler stub_model [] [''age'' \<mapsto> JNum 45]
     = Inr [(''age'', JNum (1 / 2)), (''gender'', JNum 0), (''bmi'', JNum 0)]"
    by (simp add: run_defs stub_defs)
  from transform_width_not_checked [of ?narrow stub_model narrow_scaler "[]", OF _ _ _ n]
       transform_width_not_checked [of ?wide stub_model wide_scaler "[]", OF _ _ _ w] r
  show ?thesis
    by (simp add: stub_defs out_of_bounds_def str_nat.simps)
qed

subsection \<open>Values that are not numbers\<close>

text \<open>
  Claim C9, as stated: a request with a value that cannot be coerced to a number is rejected
  with an error of its own kind. It fails on the code, which has no coercion step: a string
  under a name of neither schema is dropped with its column and the request is served; a
  string under a scaler column goes to the transform, and what the transform raises is
  answered with the 500 error of every failed prediction.
\<close>

theorem predict_non_numeric_counterexample:
  "predict \<lparr> model = Some stub_model, scaler = Some stub_scaler, feature_columns = Some [] \<rparr>
       [''age'' \<mapsto> JNum 45, ''note'' \<mapsto> JStr ''abc'']
     = (Inr \<lparr> risk_probability = 0.62, risk_level = ''Moderate'', confidence = 0.24,
              vitality_score = 38,
              recommendation = ''Some indicators suggest potential risks. Consider consulting a professional and reviewing your diet/exercise habits.'' \<rparr>,
        [CallTransform [(''age'', JNum 45), (''bmi'', JNum 0)],
         CallPredictProba [JNum (1 / 2), JNum 0, JNum (- 4)]]) \<and>
   predict \<lparr> model = Some stub_model, scaler = Some stub_scaler, feature_columns = Some [] \<rparr>
       [''age'' \<mapsto> JStr ''abc'']
     = (Inl (HTTPException 500 ''Prediction failed: could not convert string to float''),
        [CallTransform [(''age'', JStr ''abc''), (''bmi'', JNum 0)],
         LogError ''Prediction error: could not convert string to float''])"
  by (simp add: run_defs stub_defs)

text \<open>
  Claim C9, amended. With the artifacts loaded, a value of the record is never replaced by
  0: under a name of the scaler's schema it is in the frame given to the transform, under a
  name of the model's schema only it is in the final frame given to the classifier. An
  exception raised by the transform or by the classifier is answered with status 500 and
  the detail \<^verbatim>\<open>Prediction failed: \<close> followed by its message, the same error as any other
  failure of the prediction. A value under a name of neither schema is ignored: the
  request is answered as if the field were absent.
\<close>

theorem predict_non_numeric_values:
  assumes "model st = Some m" and "scaler st = Some s" and "feature_columns st = Some fc"
  shows "(features c = Some v \<and> c \<in> set (scaler_features s fc) \<longrightarrow>
            (c, v) \<in> set (reindex features (scaler_features s fc))) \<and>
         (features c = Some v \<and> c \<in> set (model_features m fc) \<and>
          c \<notin> set (scaler_features s fc) \<longrightarrow>
            (\<forall>final. reconcile s m fc features = Inr final \<longrightarrow> (c, v) \<in> set final)) \<and>
         (scaler_transform s (reindex features (scaler_features s fc)) = Inl e \<longrightarrow>
            fst (predict st features) =
              Inl (HTTPException 500 (''Prediction failed: '' @ str_exn e))) \<and>
         (\<forall>final. reconcile s m fc features = Inr final \<and>
                   model_predict_proba m (map snd final) = Inl e \<longrightarrow>
            fst (predict st features) =
              Inl (HTTPException 500 (''Prediction failed: '' @ str_exn e))) \<and>
         (c \<notin> set (scaler_features s fc) \<union> set (model_features m fc) \<longrightarrow>
            predict st (features(c \<mapsto> v)) = predict st (features(c := None)))"
proof (intro conjI impI allI)
  assume "features c = Some v \<and> c \<in> set (scaler_features s fc)"
  then show "(c, v) \<in> set (reindex features (scaler_features s fc))"
    by (simp add: reindex_present)
next
  fix final
  assume a: "features c = Some v \<and> c \<in> set (model_features m fc) \<and>
             c \<notin> set (scaler_features s fc)"
    and r: "reconcile s m fc features = Inr final"
  from a obtain j where j: "j < length (model_features m fc)" "model_features m fc ! j = c"
    by (auto simp: in_set_conv_nth)
  with a have "model_features m fc ! j \<notin> set (scaler_features s fc)" by simp
  from reconcile_model_only_kept [OF r j(1) this] j a
  have "j < length final" "final ! j = (c, v)" by (simp_all add: reindex_nth)
  then show "(c, v) \<in> set final" by (metis nth_mem)
next
  assume "scaler_transform s (reindex features (scaler_features s fc)) = Inl e"
  then have "reconcile s m fc features = Inl e" by (simp add: reconcile_def)
  from predict_reconcile_failed [OF assms this]
  show "fst (predict st features) = Inl (HTTPException 500 (''Prediction failed: '' @ str_exn e))"
    by (simp add: prediction_failed_def)
next
  fix final
  assume "reconcile s m fc features = Inr final \<and> model_predict_proba m (map snd final) = Inl e"
  then have "reconcile s m fc features = Inr final" "model_predict_proba m (map snd final) = Inl e"
    by simp_all
  from predict_classifier_failed [OF assms this]
  show "fst (predict st features) = Inl (HTTPException 500 (''Prediction failed: '' @ str_exn e))"
    by (simp add: prediction_failed_def)
next
  assume "c \<notin> set (scaler_features s fc) \<union> set (model_features m fc)"
  then show "predict st (features(c \<mapsto> v)) = predict st (features(c := None))"
    by (intro predict_cong_features [OF assms]) auto
qed

theorem predict_non_numeric_values_witness:
  "(''age'', JStr ''abc'') \<in> set (reindex [''age'' \<mapsto> JStr ''abc''] (scaler_features stub_scaler [])) \<and>
   scaler_transform stub_scaler (reindex [''age'' \<mapsto> JStr ''abc''] (scaler_features stub_scaler []))
     = Inl (Raised ''could not convert string to float'') \<and>
   fst (predict \<lparr> model = Some stub_model, scaler = Some stub_scaler, feature_columns = Some [] \<rparr>
          [''age'' \<mapsto> JStr ''abc''])
     = Inl (HTTPException 500 ''Prediction failed: could not convert string to float'') \<and>
   reconcile stub_scaler stub_model [] [''age'' \<mapsto> JNum 45, ''gender'' \<mapsto> JStr ''f'']
     = Inr [(''age'', JNum (1 / 2)), (''gender'', JStr ''f''), (''bmi'', JNum (- 4))] \<and>
   (''gender'', JStr ''f'') \<in> set [(''age'', JNum (1 / 2)), (''gender'', JStr ''f''), (''bmi'', JNum (- 4))] \<and>
   model_predict_proba stub_model [JNum (1 / 2), JStr ''f'', JNum (- 4)]
     = Inl (Raised ''could not convert string to float'') \<and>
   fst (predict \<lparr> model = Some stub_model, scaler = Some stub_scaler, feature_columns = Some [] \<rparr>
          [''age'' \<mapsto> JNum 45, ''gender'' \<mapsto> JStr ''f''])
     = Inl (HTTPException 500 ''Prediction failed: could not convert string to float'') \<and>
   ''note'' \<notin> set (scaler_features stub_scaler []) \<union> set (model_features stub_model []) \<and>
   predict \<lparr> model = Some stub_model, scaler = Some stub_scaler, feature_columns = Some [] \<rparr>
       ([''age'' \<mapsto> JNum 45](''note'' \<mapsto> JStr ''abc''))
     = predict \<lparr> model = Some stub_model, scaler = Some stub_scaler, feature_columns = Some [] \<rparr>
       ([''age'' \<mapsto> JNum 45](''note'' := None))"
proof -
  let ?st = "\<lparr> model = Some stub_model, scaler = Some stub_scaler, feature_columns = Some [] \<rparr>"
  let ?e = "Raised ''could not convert string to float''"
  have r: "reconcile stub_scaler stub_model [] [''age'' \<mapsto> JNum 45, ''gender'' \<mapsto> JStr ''f'']
     = Inr [(''age'', JNum (1 / 2)), (''gender'', JStr ''f''), (''bmi'', JNum (- 4))]"
    by (simp add: run_defs stub_defs)
  from predict_non_numeric_values
         [of ?st stub_model stub_scaler "[]" "[''age'' \<mapsto> JStr ''abc'']" "''age''" "JStr ''abc''" ?e]
       predict_non_numeric_values
         [of ?st stub_model stub_scaler "[]" "[''age'' \<mapsto> JNum 45, ''gender'' \<mapsto> JStr ''f'']"
             "''gender''" "JStr ''f''" ?e]
       predict_non_numeric_values
         [of ?st stub_model stub_scaler "[]" "[''age'' \<mapsto> JNum 45]" "''note''" "JStr ''abc''" ?e]
       r
  show ?thesis
    by (simp add: stub_defs reindex_def)
qed

end
